theory Spec2Isabelle
  imports Complex_Main "HOL-Library.Word" "HOL-Library.Sublist"
begin

section \<open>Face blurring Lambda (src/blur\_faces/app.py)\<close>

text \<open>
  A shallow embedding of \<^verbatim>\<open>src/blur_faces/app.py\<close>: the two region anonymizers
  \<^verbatim>\<open>anonymize_face_simple\<close> and \<^verbatim>\<open>anonymize_face_pixelate\<close>, the helper
  \<^verbatim>\<open>add_failed\<close> and the batch loop of \<^verbatim>\<open>lambda_handler\<close>.

  Exceptions are values: a computation that can raise returns \<open>exn + 'a\<close>, with
  \<open>Inl\<close> the exception that leaves the function. The services the handler talks to
  (S3, Rekognition, the OpenCV codecs and the Gaussian filter) are parameters, gathered
  in the record \<open>env\<close>. The NumPy and OpenCV primitives whose behaviour the pixelation
  depends on (\<^verbatim>\<open>np.linspace\<close>, slicing, \<^verbatim>\<open>cv2.mean\<close>, \<^verbatim>\<open>cv2.rectangle\<close>) are
  written out from their documented behaviour.
\<close>

subsection \<open>Exceptions\<close>

datatype exn =
    KeyError
  | NameError                   \<comment> \<open>\<^verbatim>\<open>UnboundLocalError\<close>, a subclass of \<^verbatim>\<open>NameError\<close>\<close>
  | AttributeError
  | ValueError
  | ZeroDivisionError
  | ClientError                 \<comment> \<open>\<^verbatim>\<open>botocore.exceptions.ClientError\<close>\<close>
  | AccessDeniedException       \<comment> \<open>\<^verbatim>\<open>rekognition.exceptions.AccessDeniedException\<close>\<close>
  | InvalidS3ObjectException    \<comment> \<open>\<^verbatim>\<open>rekognition.exceptions.InvalidS3ObjectException\<close>\<close>
  | S3UploadFailedError         \<comment> \<open>\<^verbatim>\<open>boto3.exceptions.S3UploadFailedError\<close>\<close>
  | cv2_error
  | OtherError string           \<comment> \<open>any other exception a collaborator raises\<close>

subsection \<open>Images\<close>

text \<open>
  An image is a NumPy array of shape \<open>(h, w, 3)\<close> with 8-bit channels, as
  \<^verbatim>\<open>cv2.imread\<close> returns it: the shape and the rows of pixels. The shape is kept
  beside the rows because a slice of height 0 still has a width.
\<close>

type_synonym pixel = "8 word \<times> 8 word \<times> 8 word"

record image =
  img_h :: nat
  img_w :: nat
  img_rows :: "pixel list list"

definition wf_image :: "image \<Rightarrow> bool" where
  "wf_image im \<longleftrightarrow>
     length (img_rows im) = img_h im \<and> list_all (\<lambda>r. length r = img_w im) (img_rows im)"

definition pixel_at :: "image \<Rightarrow> nat \<Rightarrow> nat \<Rightarrow> pixel" where
  "pixel_at im y x = img_rows im ! y ! x"

text \<open>
  Python's slice \<^verbatim>\<open>a:b\<close> on an axis of length \<open>n\<close>: a negative bound counts from
  the end, a bound out of range is clamped, and the slice is empty when the upper bound
  is not above the lower one. \<open>py_slice n a b\<close> is the half-open range \<open>(lo, hi)\<close>
  of indices selected, with \<open>lo \<le> hi \<le> n\<close>.
\<close>

definition slice_bound :: "nat \<Rightarrow> int \<Rightarrow> nat" where
  "slice_bound n i =
     (if i < 0 then (if int n + i < 0 then 0 else nat (int n + i))
      else if int n < i then n else nat i)"

definition py_slice :: "nat \<Rightarrow> int \<Rightarrow> int \<Rightarrow> nat \<times> nat" where
  "py_slice n a b =
     (let lo = slice_bound n a; hi = slice_bound n b in (lo, if hi < lo then lo else hi))"

text \<open>\<^verbatim>\<open>image[y1:y2, x1:x2]\<close>, read.\<close>

definition get_region :: "image \<Rightarrow> int \<Rightarrow> int \<Rightarrow> int \<Rightarrow> int \<Rightarrow> image" where
  "get_region im y1 y2 x1 x2 =
     (let (ylo, yhi) = py_slice (img_h im) y1 y2;
          (xlo, xhi) = py_slice (img_w im) x1 x2
      in \<lparr>img_h = yhi - ylo, img_w = xhi - xlo,
          img_rows = map (\<lambda>r. take (xhi - xlo) (drop xlo r))
                         (take (yhi - ylo) (drop ylo (img_rows im)))\<rparr>)"

text \<open>
  \<^verbatim>\<open>image[y1:y2, x1:x2] = face\<close>, written: every pixel of the slice takes the
  pixel of \<open>face\<close> at the same offset, every other pixel stays. The value assigned
  here always has the shape of the slice (it is the slice itself, or the output of
  \<^verbatim>\<open>cv2.GaussianBlur\<close> on it); NumPy raises \<^verbatim>\<open>ValueError\<close> for a shape it cannot
  broadcast, which is how every other shape is modelled.
\<close>

definition set_region :: "image \<Rightarrow> int \<Rightarrow> int \<Rightarrow> int \<Rightarrow> int \<Rightarrow> image \<Rightarrow> exn + image" where
  "set_region im y1 y2 x1 x2 face =
     (let (ylo, yhi) = py_slice (img_h im) y1 y2;
          (xlo, xhi) = py_slice (img_w im) x1 x2
      in if img_h face \<noteq> yhi - ylo \<or> img_w face \<noteq> xhi - xlo then Inl ValueError
         else Inr (im\<lparr>img_rows :=
                map (\<lambda>(y, row).
                       map (\<lambda>(x, p). if ylo \<le> y \<and> y < yhi \<and> xlo \<le> x \<and> x < xhi
                                      then img_rows face ! (y - ylo) ! (x - xlo) else p)
                           (enumerate 0 row))
                    (enumerate 0 (img_rows im))\<rparr>))"

subsection \<open>anonymize\_face\_simple (lines 20-53)\<close>

text \<open>
  \<^verbatim>\<open>int(x)\<close> on a number truncates towards zero. The float division \<^verbatim>\<open>w / factor\<close>
  is modelled by exact division of rationals (with \<^verbatim>\<open>factor = 3.0\<close>, the only value
  the handler passes, both agree on every image size below \<open>2 ^ 51\<close>); dividing by
  \<^verbatim>\<open>0.0\<close> raises.
\<close>

definition py_int :: "rat \<Rightarrow> int" where
  "py_int q = (if 0 \<le> q then \<lfloor>q\<rfloor> else \<lceil>q\<rceil>)"

text \<open>Lines 39-49: the kernel size \<open>(kW, kH)\<close> handed to the Gaussian filter.\<close>

definition kernel_size :: "image \<Rightarrow> rat \<Rightarrow> int \<times> int" where
  "kernel_size im factor =
     (let h = img_h im; w = img_w im;
          kW = py_int (of_nat w / factor);
          kH = py_int (of_nat h / factor);
          kW = (if kW mod 2 = 0 then kW - 1 else kW);
          kH = (if kH mod 2 = 0 then kH - 1 else kH)
      in (kW, kH))"

text \<open>
  The function itself; \<open>gaussian_blur\<close> stands for \<^verbatim>\<open>cv2.GaussianBlur(_, _, 0)\<close>,
  which is not code of this repository.
\<close>

definition anonymize_face_simple ::
  "(image \<Rightarrow> int \<times> int \<Rightarrow> exn + image) \<Rightarrow> image \<Rightarrow> rat \<Rightarrow> exn + image" where
  "anonymize_face_simple gaussian_blur im factor =
     (if factor = 0 then Inl ZeroDivisionError
      else gaussian_blur im (kernel_size im factor))"

subsection \<open>anonymize\_face\_pixelate (lines 56-96)\<close>

text \<open>
  \<^verbatim>\<open>np.linspace(0, w, blocks + 1, dtype="int")\<close>: the \<open>blocks + 1\<close> evenly spaced
  values \<open>i * w / blocks\<close>, rounded down to integers; with \<open>blocks = 0\<close> the single
  value \<open>0\<close>. (The floating-point products are taken as exact.)
\<close>

definition linspace_int :: "nat \<Rightarrow> nat \<Rightarrow> nat list" where
  "linspace_int w blocks =
     (if blocks = 0 then [0] else map (\<lambda>i. (i * w) div blocks) [0..<blocks + 1])"

text \<open>
  \<^verbatim>\<open>[int(x) for x in cv2.mean(roi)[:3]]\<close>: the mean of each channel over the pixels
  of \<open>roi\<close>, truncated; \<^verbatim>\<open>cv2.mean\<close> of an array with no element is \<open>0\<close> in every
  channel. (The mean is taken as the exact quotient.)
\<close>

definition mean_int :: "nat list \<Rightarrow> nat" where
  "mean_int vs = (if vs = [] then 0 else sum_list vs div length vs)"

definition mean_color :: "image \<Rightarrow> nat \<times> nat \<times> nat" where
  "mean_color roi =
     (let ps = concat (img_rows roi)
      in (mean_int (map (\<lambda>(b, g, r). unat b) ps),
          mean_int (map (\<lambda>(b, g, r). unat g) ps),
          mean_int (map (\<lambda>(b, g, r). unat r) ps)))"

text \<open>
  \<^verbatim>\<open>cv2.rectangle(image, (startX, startY), (endX, endY), (B, G, R), -1)\<close>: the filled
  rectangle whose opposite corners are the two points, both corners included, clipped
  to the image. The colour is stored with a saturating cast to 8 bits.
\<close>

definition to_u8 :: "nat \<Rightarrow> 8 word" where
  "to_u8 n = (if 255 < n then 255 else of_nat n)"

definition rectangle_filled ::
  "image \<Rightarrow> nat \<times> nat \<Rightarrow> nat \<times> nat \<Rightarrow> nat \<times> nat \<times> nat \<Rightarrow> image" where
  "rectangle_filled im pt1 pt2 color =
     (let (startX, startY) = pt1; (endX, endY) = pt2; (B, G, R) = color;
          c = (to_u8 B, to_u8 G, to_u8 R)
      in im\<lparr>img_rows :=
           map (\<lambda>(y, row).
                  map (\<lambda>(x, p). if startX \<le> x \<and> x \<le> endX \<and> startY \<le> y \<and> y \<le> endY
                                 then c else p)
                      (enumerate 0 row))
               (enumerate 0 (img_rows im))\<rparr>)"

text \<open>Lines 82-93: the body of the two loops, for the block \<open>(i, j)\<close>.\<close>

definition pixelate_block :: "nat list \<Rightarrow> nat list \<Rightarrow> image \<Rightarrow> nat \<Rightarrow> nat \<Rightarrow> image" where
  "pixelate_block xSteps ySteps im i j =
     (let startX = xSteps ! (j - 1);
          startY = ySteps ! (i - 1);
          endX = xSteps ! j;
          endY = ySteps ! i;
          roi = get_region im (int startY) (int endY) (int startX) (int endX)
      in rectangle_filled im (startX, startY) (endX, endY) (mean_color roi))"

definition anonymize_face_pixelate :: "image \<Rightarrow> nat \<Rightarrow> image" where
  "anonymize_face_pixelate im blocks =
     (let h = img_h im; w = img_w im;
          xSteps = linspace_int w blocks;
          ySteps = linspace_int h blocks
      in foldl (\<lambda>im i. foldl (\<lambda>im j. pixelate_block xSteps ySteps im i j)
                              im [1..<length xSteps])
               im [1..<length ySteps])"

subsection \<open>The batch input and the collaborators\<close>

text \<open>
  One record of the event. \<^verbatim>\<open>record['s3']['bucket']['name']\<close>,
  \<^verbatim>\<open>record['s3']['object']['key']\<close> and \<^verbatim>\<open>record['s3']['object']['size']\<close> are
  the only entries read; an entry is \<open>None\<close> when a dictionary on its path lacks the
  key, so that reading it raises \<^verbatim>\<open>KeyError\<close>. A record with no \<^verbatim>\<open>'s3'\<close> entry has
  all three \<open>None\<close>. The size is an integer, as S3 sends it, so that \<^verbatim>\<open>int(_)\<close>
  returns it unchanged.
\<close>

record s3_record =
  s3_bucket_name :: "string option"
  s3_object_key :: "string option"
  s3_object_size :: "int option"

record event =
  Records :: "s3_record list option"

record bounding_box =
  bb_Left :: rat
  bb_Top :: rat
  bb_Width :: rat
  bb_Height :: rat

text \<open>
  What the handler calls but does not define. A call that can raise returns the
  exception on the left. The local file system is the map \<open>tmp\<close> from file names to
  contents, threaded through the handler.
\<close>

record env =
  unquote_plus :: "string \<Rightarrow> string"
  download_file :: "string \<Rightarrow> string \<Rightarrow> exn + string"
  imread :: "string \<Rightarrow> image option"
  detect_faces :: "string \<Rightarrow> string \<Rightarrow> exn + bounding_box list"
  GaussianBlur :: "image \<Rightarrow> int \<times> int \<Rightarrow> exn + image"
  BLUR_TYPE :: "string option"
  imwrite :: "string \<Rightarrow> image \<Rightarrow> string"
  upload_file :: "string \<Rightarrow> string \<Rightarrow> string \<Rightarrow> exn option"
  output_bucket :: string
  cv2_version :: string

subsection \<open>The result\<close>

record success_entry =
  s_bucket :: string
  s_key :: string

record failed_entry =
  f_bucket :: string
  f_key :: string
  f_error_message :: string

record body =
  b_cv2_version :: string
  b_failed_records :: "failed_entry list"
  b_successful_records :: "success_entry list"

record response =
  statusCode :: nat
  response_body :: body

subsection \<open>add\_failed (lines 210-215)\<close>

definition add_failed :: "string \<Rightarrow> string \<Rightarrow> failed_entry list \<Rightarrow> string \<Rightarrow> failed_entry list" where
  "add_failed bucket error_message failed_records key =
     failed_records @ [\<lparr>f_bucket = bucket, f_key = key, f_error_message = error_message\<rparr>]"

subsection \<open>lambda\_handler (lines 99-207)\<close>

text \<open>
  The variables of \<^verbatim>\<open>lambda_handler\<close> that live across iterations of the loop:
  \<^verbatim>\<open>bucket\<close> and \<^verbatim>\<open>key\<close> (\<open>None\<close> while unbound), the two result lists, and the
  files under \<^verbatim>\<open>/tmp\<close>.
\<close>

record state =
  bucket :: "string option"
  key :: "string option"
  failed_records :: "failed_entry list"
  successful_records :: "success_entry list"
  tmp :: "string \<rightharpoonup> string"

definition msg_no_s3 :: string where
  "msg_no_s3 = ''Lambda invoked without S3 event data. Event needs to reference a S3 bucket and object key.''"

definition msg_size :: string where
  "msg_size = ''Maximum image size stored as an Amazon S3 object is limited to 15 MB for Amazon Rekognition.''"

definition msg_type :: string where
  "msg_type = ''Unsupported file type. Amazon Rekognition Image currently supports the JPEG and PNG image formats.''"

definition msg_download :: string where
  "msg_download = ''Lambda role does not have permission to call GetObject for the input S3 bucket, or object does not exist.''"

definition msg_detect_denied :: string where
  "msg_detect_denied = ''Lambda role does not have permission to call DetectFaces in Amazon Rekognition.''"

definition msg_detect_invalid :: string where
  "msg_detect_invalid = ''Unable to get object metadata from S3. Check object key, region and/or access permissions for input S3 bucket.''"

definition msg_upload :: string where
  "msg_upload = ''Lambda role does not have permission to call PutObject for the output S3 bucket.''"

text \<open>
  \<^verbatim>\<open>add_failed(bucket, error_message, failed_records, key); continue\<close>. The arguments
  are the variables \<^verbatim>\<open>bucket\<close> and \<^verbatim>\<open>key\<close>: reading one that is unbound raises.
\<close>

definition fail_record :: "state \<Rightarrow> string \<Rightarrow> exn + state" where
  "fail_record st error_message =
     (case bucket st of
        None \<Rightarrow> Inl NameError
      | Some b \<Rightarrow>
          (case key st of
             None \<Rightarrow> Inl NameError
           | Some k \<Rightarrow>
               Inr (st\<lparr>failed_records := add_failed b error_message (failed_records st) k\<rparr>)))"

text \<open>\<^verbatim>\<open>s.split(c)[-1]\<close>: what follows the last \<open>c\<close> of \<open>s\<close>, all of \<open>s\<close> without one.\<close>

definition split_last :: "char \<Rightarrow> string \<Rightarrow> string" where
  "split_last c s = rev (takeWhile (\<lambda>d. d \<noteq> c) (rev s))"

text \<open>
  Lines 106-112, the \<^verbatim>\<open>try\<close> block: the assignments in order, up to the first entry
  that is missing. On the left the state when \<^verbatim>\<open>KeyError\<close> is raised, on the right
  the state with \<^verbatim>\<open>size\<close> and \<^verbatim>\<open>local_filename\<close>.
\<close>

definition read_record :: "env \<Rightarrow> state \<Rightarrow> s3_record \<Rightarrow> state + (state \<times> int \<times> string)" where
  "read_record env st record =
     (case s3_bucket_name record of
        None \<Rightarrow> Inl st
      | Some b \<Rightarrow>
          (let st = st\<lparr>bucket := Some b\<rparr> in
           case s3_object_key record of
             None \<Rightarrow> Inl st
           | Some k \<Rightarrow>
               (let key' = unquote_plus env k; st = st\<lparr>key := Some key'\<rparr> in
                case s3_object_size record of
                  None \<Rightarrow> Inl st
                | Some size' \<Rightarrow>
                    (let filename = split_last CHR ''/'' key';
                         local_filename = ''/tmp/'' @ filename
                     in Inr (st, size', local_filename)))))"

text \<open>
  Lines 166-176: the face is cut out of the image, anonymized by the variant that
  \<^verbatim>\<open>os.environ['BLUR_TYPE']\<close> selects, and written back. The pixelation draws into
  the slice it is given, a view of the image, and \<^verbatim>\<open>cv2.rectangle\<close> clips to that
  view; the result is the same as computing the pixelated slice and storing it.
\<close>

definition anonymize_rect :: "env \<Rightarrow> image \<Rightarrow> int \<Rightarrow> int \<Rightarrow> int \<Rightarrow> int \<Rightarrow> exn + image" where
  "anonymize_rect env im y1 y2 x1 x2 =
     (let face = get_region im y1 y2 x1 x2
      in case BLUR_TYPE env of
           None \<Rightarrow> Inl KeyError
         | Some t \<Rightarrow>
             (case (if t = ''pixelate'' then Inr (anonymize_face_pixelate face 10)
                    else anonymize_face_simple (GaussianBlur env) face 3) of
                Inl e \<Rightarrow> Inl e
              | Inr face' \<Rightarrow> set_region im y1 y2 x1 x2 face'))"

text \<open>
  Lines 158-176, the body of the loop over the detected faces. The products of a
  fraction and a dimension are taken as exact.
\<close>

definition blur_face :: "env \<Rightarrow> image \<Rightarrow> nat \<Rightarrow> nat \<Rightarrow> bounding_box \<Rightarrow> exn + image" where
  "blur_face env im image_height image_width detected_face =
     (let x1 = py_int (bb_Left detected_face * of_nat image_width);
          x2 = x1 + py_int (bb_Width detected_face * of_nat image_width);
          y1 = py_int (bb_Top detected_face * of_nat image_height);
          y2 = y1 + py_int (bb_Height detected_face * of_nat image_height)
      in anonymize_rect env im y1 y2 x1 x2)"

fun blur_faces :: "env \<Rightarrow> image \<Rightarrow> nat \<Rightarrow> nat \<Rightarrow> bounding_box list \<Rightarrow> exn + image" where
  "blur_faces env im image_height image_width [] = Inr im"
| "blur_faces env im image_height image_width (detected_face # faces) =
     (case blur_face env im image_height image_width detected_face of
        Inl e \<Rightarrow> Inl e
      | Inr im' \<Rightarrow> blur_faces env im' image_height image_width faces)"

text \<open>
  Lines 118-196, one iteration after the \<^verbatim>\<open>try\<close> block succeeded; \<open>b\<close> and \<open>k\<close> are
  the values of \<^verbatim>\<open>bucket\<close> and \<^verbatim>\<open>key\<close>.
\<close>

definition process_parsed :: "env \<Rightarrow> state \<Rightarrow> string \<Rightarrow> string \<Rightarrow> int \<Rightarrow> string \<Rightarrow> exn + state" where
  "process_parsed env st b k size' local_filename =
     (if size' > 15728640 then fail_record st msg_size
      else if split_last CHR ''.'' local_filename \<notin> set [''png'', ''jpeg'', ''jpg'']
        then fail_record st msg_type
      else
        (case download_file env b k of
           Inl e \<Rightarrow> (if e = ClientError then fail_record st msg_download else Inl e)
         | Inr content \<Rightarrow>
             (let st = st\<lparr>tmp := (tmp st)(local_filename \<mapsto> content)\<rparr> in
              case imread env content of
                None \<Rightarrow> Inl AttributeError
              | Some im \<Rightarrow>
                  (let image_height = img_h im; image_width = img_w im in
                   case detect_faces env b k of
                     Inl e \<Rightarrow>
                       (if e = AccessDeniedException then fail_record st msg_detect_denied
                        else if e = InvalidS3ObjectException then fail_record st msg_detect_invalid
                        else Inl e)
                   | Inr faces \<Rightarrow>
                       (case blur_faces env im image_height image_width faces of
                          Inl e \<Rightarrow> Inl e
                        | Inr im' \<Rightarrow>
                            (let written = imwrite env local_filename im';
                                 st = st\<lparr>tmp := (tmp st)(local_filename \<mapsto> written)\<rparr> in
                             case upload_file env written (output_bucket env) k of
                               Some e \<Rightarrow>
                                 (if e = S3UploadFailedError then fail_record st msg_upload
                                  else Inl e)
                             | None \<Rightarrow>
                                 Inr (st\<lparr>tmp := (tmp st)(local_filename := None),
                                         successful_records := successful_records st
                                           @ [\<lparr>s_bucket = b, s_key = k\<rparr>]\<rparr>)))))))"

text \<open>Lines 104-196, one iteration of the loop over the records.\<close>

definition process_record :: "env \<Rightarrow> state \<Rightarrow> s3_record \<Rightarrow> exn + state" where
  "process_record env st record =
     (case read_record env st record of
        Inl st' \<Rightarrow> fail_record st' msg_no_s3
      | Inr (st', size', local_filename) \<Rightarrow>
          (case bucket st' of
             None \<Rightarrow> Inl NameError
           | Some b \<Rightarrow>
               (case key st' of
                  None \<Rightarrow> Inl NameError
                | Some k \<Rightarrow> process_parsed env st' b k size' local_filename)))"

fun process_records :: "env \<Rightarrow> state \<Rightarrow> s3_record list \<Rightarrow> exn + state" where
  "process_records env st [] = Inr st"
| "process_records env st (record # records) =
     (case process_record env st record of
        Inl e \<Rightarrow> Inl e
      | Inr st' \<Rightarrow> process_records env st' records)"

text \<open>
  The handler: \<open>files\<close> is what \<^verbatim>\<open>/tmp\<close> holds when it is called, and the result is
  the response with what \<^verbatim>\<open>/tmp\<close> holds when it returns. The body, a JSON string in
  the source, is kept as the value that is serialised.
\<close>

definition initial_state :: "(string \<rightharpoonup> string) \<Rightarrow> state" where
  "initial_state files =
     \<lparr>bucket = None, key = None, failed_records = [], successful_records = [], tmp = files\<rparr>"

definition lambda_handler ::
  "env \<Rightarrow> (string \<rightharpoonup> string) \<Rightarrow> event \<Rightarrow> exn + (response \<times> (string \<rightharpoonup> string))" where
  "lambda_handler env files ev =
     (case Records ev of
        None \<Rightarrow> Inl KeyError
      | Some records \<Rightarrow>
          (case process_records env (initial_state files) records of
             Inl e \<Rightarrow> Inl e
           | Inr st \<Rightarrow>
               Inr (\<lparr>statusCode = 200,
                     response_body = \<lparr>b_cv2_version = cv2_version env,
                                      b_failed_records = failed_records st,
                                      b_successful_records = successful_records st\<rparr>\<rparr>,
                    tmp st)))"

subsection \<open>Sample inputs\<close>

text \<open>
  Collaborators that all succeed: the download yields some bytes, the decoder an
  image of 2 by 2 pixels, the detector no face, the upload succeeds. The variants
  below change one collaborator each.
\<close>

definition gray :: "nat \<Rightarrow> pixel" where
  "gray n = (of_nat n, of_nat n, of_nat n)"

definition gray_image :: "nat list list \<Rightarrow> image" where
  "gray_image rs =
     \<lparr>img_h = length rs, img_w = (case rs of [] \<Rightarrow> 0 | r # _ \<Rightarrow> length r),
      img_rows = map (map gray) rs\<rparr>"

definition env_ok :: env where
  "env_ok =
     \<lparr>unquote_plus = (\<lambda>s. s),
      download_file = (\<lambda>b k. Inr ''bytes''),
      imread = (\<lambda>c. Some (gray_image [[1, 2], [3, 4]])),
      detect_faces = (\<lambda>b k. Inr []),
      GaussianBlur = (\<lambda>im ksize. Inr im),
      BLUR_TYPE = Some ''pixelate'',
      imwrite = (\<lambda>f im. ''blurred''),
      upload_file = (\<lambda>c b k. None),
      output_bucket = ''out'',
      cv2_version = ''4.5.1''\<rparr>"

definition env_undecodable :: env where
  "env_undecodable = env_ok\<lparr>imread := (\<lambda>c. None)\<rparr>"

definition env_detect_denied :: env where
  "env_detect_denied = env_ok\<lparr>detect_faces := (\<lambda>b k. Inl AccessDeniedException)\<rparr>"

definition env_upload_fails :: env where
  "env_upload_fails = env_ok\<lparr>upload_file := (\<lambda>c b k. Some S3UploadFailedError)\<rparr>"

definition env_blur :: env where
  "env_blur = env_ok\<lparr>BLUR_TYPE := Some ''blur''\<rparr>"


definition good_record :: "string \<Rightarrow> string \<Rightarrow> s3_record" where
  "good_record b k = \<lparr>s3_bucket_name = Some b, s3_object_key = Some k, s3_object_size = Some 1000\<rparr>"

definition no_s3_record :: s3_record where
  "no_s3_record = \<lparr>s3_bucket_name = None, s3_object_key = None, s3_object_size = None\<rparr>"

definition bucket_only_record :: "string \<Rightarrow> s3_record" where
  "bucket_only_record b = \<lparr>s3_bucket_name = Some b, s3_object_key = None, s3_object_size = None\<rparr>"

definition no_files :: "string \<rightharpoonup> string" where
  "no_files = Map.empty"

subsection \<open>Auxiliary predicates\<close>

text \<open>
  \<open>one_more st st'\<close>: from \<open>st\<close> to \<open>st'\<close> exactly one entry was appended, to
  exactly one of the two result lists, and nothing else in them changed.
\<close>

definition one_more :: "state \<Rightarrow> state \<Rightarrow> bool" where
  "one_more st st' \<longleftrightarrow>
     (\<exists>f. failed_records st' = failed_records st @ [f] \<and> successful_records st' = successful_records st)
     \<or> (\<exists>s. successful_records st' = successful_records st @ [s] \<and> failed_records st' = failed_records st)"

section \<open>Properties\<close>

subsection \<open>One iteration appends one entry\<close>

lemma fail_record_Inr:
  assumes "fail_record st m = Inr st'"
  shows "\<exists>b k. bucket st = Some b \<and> key st = Some k \<and>
           st' = st\<lparr>failed_records := failed_records st
                   @ [\<lparr>f_bucket = b, f_key = k, f_error_message = m\<rparr>]\<rparr>"
  using assms by (auto simp: fail_record_def add_failed_def split: option.splits)

lemma fail_record_one_more: "fail_record st m = Inr st' \<Longrightarrow> one_more st st'"
  by (drule fail_record_Inr) (auto simp: one_more_def)

lemma one_more_tmp [simp]: "one_more (st\<lparr>tmp := t\<rparr>) st' = one_more st st'"
  by (simp add: one_more_def)

lemma process_parsed_one_more:
  assumes "process_parsed env st b k sz lf = Inr st'"
  shows "one_more st st'"
proof (cases "sz > 15728640 \<or> split_last CHR ''.'' lf \<notin> set [''png'', ''jpeg'', ''jpg'']")
  case True
  with assms show ?thesis
    by (auto simp: process_parsed_def split: if_splits dest: fail_record_one_more)
next
  case False
  show ?thesis
  proof (cases "download_file env b k")
    case (Inl e)
    with assms False show ?thesis
      by (auto simp: process_parsed_def split: if_splits dest: fail_record_one_more)
  next
    case (Inr content)
    note dl = this
    show ?thesis
    proof (cases "imread env content")
      case None
      with assms False dl show ?thesis by (simp add: process_parsed_def)
    next
      case (Some im)
      note rd = this
      show ?thesis
      proof (cases "detect_faces env b k")
        case (Inl e)
        with assms False dl rd show ?thesis
          by (auto simp: process_parsed_def Let_def split: if_splits dest!: fail_record_one_more)
      next
        case (Inr faces)
        with assms False dl rd show ?thesis
          by (auto simp: process_parsed_def Let_def one_more_def split: if_splits sum.splits option.splits
              dest!: fail_record_Inr)
      qed
    qed
  qed
qed

lemma read_record_Inl:
  "read_record env st r = Inl st1 \<Longrightarrow>
     failed_records st1 = failed_records st \<and> successful_records st1 = successful_records st
     \<and> tmp st1 = tmp st"
  by (auto simp: read_record_def Let_def split: option.splits)

lemma read_record_Inr:
  "read_record env st r = Inr (st1, sz, lf) \<Longrightarrow>
     failed_records st1 = failed_records st \<and> successful_records st1 = successful_records st
     \<and> tmp st1 = tmp st \<and> bucket st1 = s3_bucket_name r
     \<and> key st1 = map_option (unquote_plus env) (s3_object_key r)
     \<and> s3_bucket_name r \<noteq> None \<and> s3_object_key r \<noteq> None \<and> s3_object_size r = Some sz"
  by (auto simp: read_record_def Let_def split: option.splits)

lemma one_more_cong: 
  "failed_records st1 = failed_records st \<Longrightarrow> successful_records st1 = successful_records st \<Longrightarrow>
   one_more st1 st' \<Longrightarrow> one_more st st'"
  by (simp add: one_more_def)

lemma process_record_one_more:
  assumes "process_record env st r = Inr st'"
  shows "one_more st st'"
proof (cases "read_record env st r")
  case (Inl st1)
  with assms have "fail_record st1 msg_no_s3 = Inr st'" by (simp add: process_record_def)
  then have "one_more st1 st'" by (rule fail_record_one_more)
  with read_record_Inl[OF Inl] show ?thesis by (auto intro: one_more_cong)
next
  case (Inr t)
  obtain st1 sz lf where t: "t = (st1, sz, lf)" by (cases t) auto
  with assms Inr obtain b k where "process_parsed env st1 b k sz lf = Inr st'"
    by (auto simp: process_record_def split: option.splits)
  then have "one_more st1 st'" by (rule process_parsed_one_more)
  with read_record_Inr[OF Inr[unfolded t]] show ?thesis by (auto intro: one_more_cong)
qed

lemma process_records_append:
  "process_records env st (xs @ ys) =
     (case process_records env st xs of Inl e \<Rightarrow> Inl e | Inr st' \<Rightarrow> process_records env st' ys)"
  by (induction xs arbitrary: st) (auto split: sum.splits)

lemma process_records_lists:
  "process_records env st rs = Inr st' \<Longrightarrow>
     prefix (failed_records st) (failed_records st') \<and>
     prefix (successful_records st) (successful_records st') \<and>
     length (failed_records st') + length (successful_records st')
       = length (failed_records st) + length (successful_records st) + length rs"
proof (induction rs arbitrary: st)
  case Nil
  then show ?case by simp
next
  case (Cons r rs)
  from Cons.prems obtain st1 where s1: "process_record env st r = Inr st1"
    and s2: "process_records env st1 rs = Inr st'"
    by (auto split: sum.splits)
  from process_record_one_more[OF s1] Cons.IH[OF s2] show ?case
    by (auto simp: one_more_def dest: append_prefixD)
qed

subsection \<open>C9: counts and order of the batch result\<close>


subsection \<open>Sample runs of the handler\<close>

lemmas record_eval = process_record_def read_record_def process_parsed_def fail_record_def
  add_failed_def split_last_def good_record_def no_s3_record_def no_files_def initial_state_def
  env_ok_def env_undecodable_def env_detect_denied_def env_upload_fails_def Let_def

lemma step_no_s3_first:
  "process_record env_ok (initial_state no_files) no_s3_record = Inl NameError"
  by (simp add: record_eval)

lemma step_good_first:
  "process_record env_ok (initial_state no_files) (good_record ''in'' ''a.jpg'')
     = Inr \<lparr>bucket = Some ''in'', key = Some ''a.jpg'', failed_records = [],
            successful_records = [\<lparr>s_bucket = ''in'', s_key = ''a.jpg''\<rparr>], tmp = no_files\<rparr>"
  by (simp add: record_eval)

lemma step_no_s3_second:
  "process_record env_ok
     \<lparr>bucket = Some ''in'', key = Some ''a.jpg'', failed_records = [],
      successful_records = [\<lparr>s_bucket = ''in'', s_key = ''a.jpg''\<rparr>], tmp = no_files\<rparr>
     no_s3_record
   = Inr \<lparr>bucket = Some ''in'', key = Some ''a.jpg'',
          failed_records = [\<lparr>f_bucket = ''in'', f_key = ''a.jpg'', f_error_message = msg_no_s3\<rparr>],
          successful_records = [\<lparr>s_bucket = ''in'', s_key = ''a.jpg''\<rparr>], tmp = no_files\<rparr>"
  by (simp add: process_record_def read_record_def fail_record_def add_failed_def no_s3_record_def)

lemma run_good:
  "lambda_handler env_ok no_files \<lparr>Records = Some [good_record ''in'' ''a.jpg'']\<rparr>
     = Inr (\<lparr>statusCode = 200,
              response_body = \<lparr>b_cv2_version = ''4.5.1'', b_failed_records = [],
                b_successful_records = [\<lparr>s_bucket = ''in'', s_key = ''a.jpg''\<rparr>]\<rparr>\<rparr>,
            no_files)"
  by (simp add: lambda_handler_def step_good_first) (simp add: env_ok_def)

lemma run_good_then_no_s3:
  "lambda_handler env_ok no_files \<lparr>Records = Some ([good_record ''in'' ''a.jpg''] @ [no_s3_record])\<rparr>
     = Inr (\<lparr>statusCode = 200,
              response_body = \<lparr>b_cv2_version = ''4.5.1'',
                b_failed_records = [\<lparr>f_bucket = ''in'', f_key = ''a.jpg'', f_error_message = msg_no_s3\<rparr>],
                b_successful_records = [\<lparr>s_bucket = ''in'', s_key = ''a.jpg''\<rparr>]\<rparr>\<rparr>,
            no_files)"
  by (simp add: lambda_handler_def step_good_first step_no_s3_second) (simp add: env_ok_def)


subsection \<open>C5: an empty or a missing records collection\<close>

text \<open>
  Claim C5, as amended. When the records collection is present and empty, the handler
  returns status 200 with both lists empty and leaves the local files as they were.
  When the event has no records collection, the lookup \<^verbatim>\<open>event['Records']\<close> raises
  \<^verbatim>\<open>KeyError\<close>: the handler has no guard for it.
\<close>

theorem empty_batch:
  "lambda_handler env files \<lparr>Records = Some []\<rparr>
     = Inr (\<lparr>statusCode = 200,
              response_body = \<lparr>b_cv2_version = cv2_version env, b_failed_records = [],
                               b_successful_records = []\<rparr>\<rparr>, files)
   \<and> lambda_handler env files \<lparr>Records = None\<rparr> = Inl KeyError"
  by (simp add: lambda_handler_def initial_state_def)

text \<open>The claim as stated (a missing collection yields an empty result) fails here.\<close>

theorem missing_records_raises:
  "lambda_handler env_ok no_files \<lparr>Records = None\<rparr> = Inl KeyError"
  by (simp add: lambda_handler_def)

subsection \<open>C3: the kernel of the blur\<close>













subsection \<open>C1: a file that does not decode\<close>

lemma step_undecodable:
  "process_record env_undecodable (initial_state no_files) (good_record ''in'' ''a.jpg'')
     = Inl AttributeError"
  by (simp add: record_eval)

text \<open>
  Claim C1 says that a record whose bytes do not decode becomes a Failure outcome and
  that nothing raised while processing a record leaves \<^verbatim>\<open>lambda_handler\<close>. The code
  reads \<^verbatim>\<open>image.shape\<close> of the \<^verbatim>\<open>None\<close> that \<^verbatim>\<open>cv2.imread\<close> returns: on a batch of
  one well-formed record whose download succeeds and whose bytes do not decode, the
  handler raises \<^verbatim>\<open>AttributeError\<close> and returns no result.
\<close>

theorem decode_failure_escapes:
  "lambda_handler env_undecodable no_files \<lparr>Records = Some [good_record ''in'' ''a.jpg'']\<rparr>
     = Inl AttributeError"
  by (simp add: lambda_handler_def step_undecodable)

subsection \<open>C2: the local working file\<close>

lemma step_detect_denied:
  "process_record env_detect_denied (initial_state no_files) (good_record ''in'' ''a.jpg'')
     = Inr \<lparr>bucket = Some ''in'', key = Some ''a.jpg'',
            failed_records = [\<lparr>f_bucket = ''in'', f_key = ''a.jpg'',
                                f_error_message = msg_detect_denied\<rparr>],
            successful_records = [], tmp = [''/tmp/a.jpg'' \<mapsto> ''bytes'']\<rparr>"
  by (simp add: record_eval)

lemma step_upload_fails:
  "process_record env_upload_fails (initial_state no_files) (good_record ''in'' ''a.jpg'')
     = Inr \<lparr>bucket = Some ''in'', key = Some ''a.jpg'',
            failed_records = [\<lparr>f_bucket = ''in'', f_key = ''a.jpg'',
                                f_error_message = msg_upload\<rparr>],
            successful_records = [], tmp = [''/tmp/a.jpg'' \<mapsto> ''blurred'']\<rparr>"
  by (simp add: record_eval)

text \<open>
  Claim C2 says that the local working file is deleted on every exit path after the
  fetch. The code deletes it on the success path only (lines 190-191): when the
  detector denies access, and when the upload fails, the handler returns with the
  file still under \<^verbatim>\<open>/tmp\<close>.
\<close>

theorem local_file_left_behind:
  "lambda_handler env_detect_denied no_files \<lparr>Records = Some [good_record ''in'' ''a.jpg'']\<rparr>
     = Inr (\<lparr>statusCode = 200,
              response_body = \<lparr>b_cv2_version = ''4.5.1'',
                b_failed_records = [\<lparr>f_bucket = ''in'', f_key = ''a.jpg'',
                                     f_error_message = msg_detect_denied\<rparr>],
                b_successful_records = []\<rparr>\<rparr>,
            [''/tmp/a.jpg'' \<mapsto> ''bytes''])
   \<and> lambda_handler env_upload_fails no_files \<lparr>Records = Some [good_record ''in'' ''a.jpg'']\<rparr>
     = Inr (\<lparr>statusCode = 200,
              response_body = \<lparr>b_cv2_version = ''4.5.1'',
                b_failed_records = [\<lparr>f_bucket = ''in'', f_key = ''a.jpg'',
                                     f_error_message = msg_upload\<rparr>],
                b_successful_records = []\<rparr>\<rparr>,
            [''/tmp/a.jpg'' \<mapsto> ''blurred''])"
  by (simp add: lambda_handler_def step_detect_denied step_upload_fails)
     (simp add: env_detect_denied_def env_upload_fails_def env_ok_def)

subsection \<open>C4: a record without its S3 entries\<close>

text \<open>
  Claim C4 says that a record missing its bucket, key or size yields a Failure outcome
  and that the batch continues. When the first record of a batch has no S3 entries,
  the handler of line 115 reads the variables \<^verbatim>\<open>bucket\<close> and \<^verbatim>\<open>key\<close> before any
  assignment: the handler raises and the well-formed record after it is never
  processed.
\<close>

theorem malformed_first_record_aborts:
  "lambda_handler env_ok no_files \<lparr>Records = Some [no_s3_record, good_record ''in'' ''a.jpg'']\<rparr>
     = Inl NameError"
  by (simp add: lambda_handler_def step_no_s3_first)

subsection \<open>C6 and C7: pixelation\<close>

lemma upt3: "[0..<3] = [0, 1, 2::nat]"
  by (simp add: eval_nat_numeral)
lemma upt11: "[0..<11] = [0,1,2,3,4,5,6,7,8,9,10::nat]"
  by (simp add: eval_nat_numeral)
lemma linspace_4_2: "linspace_int 4 2 = [0, 2, 4]"
  unfolding linspace_int_def by (simp add: upt3)
lemma linspace_2_2: "linspace_int 2 2 = [0, 1, 2]"
  unfolding linspace_int_def by (simp add: upt3)
lemma linspace_1_10: "linspace_int 1 10 = [0,0,0,0,0,0,0,0,0,0,1]"
  unfolding linspace_int_def by (simp add: upt11)

lemma upt_1_len3: "[1..<length [a, b, c]] = [1, 2]"
  by (simp add: eval_nat_numeral)

lemma pixelate_2x4:
  assumes "img_h im = 2" "img_w im = 4"
  shows "anonymize_face_pixelate im 2 =
    pixelate_block [0, 2, 4] [0, 1, 2]
      (pixelate_block [0, 2, 4] [0, 1, 2]
        (pixelate_block [0, 2, 4] [0, 1, 2]
          (pixelate_block [0, 2, 4] [0, 1, 2] im 1 1) 1 2) 2 1) 2 2"
  unfolding anonymize_face_pixelate_def Let_def assms linspace_4_2 linspace_2_2 upt_1_len3
    foldl_Cons foldl_Nil
  by (rule refl)

lemma first_pass_block_1_1: "pixelate_block [0, 2, 4] [0, 1, 2] (gray_image [[0, 0, 0, 100], [0, 0, 0, 100]]) 1 1
             = gray_image [[0, 0, 0, 100], [0, 0, 0, 100]]"
  by code_simp
lemma first_pass_block_1_2: "pixelate_block [0, 2, 4] [0, 1, 2] (gray_image [[0, 0, 0, 100], [0, 0, 0, 100]]) 1 2
             = gray_image [[0, 0, 50, 50], [0, 0, 50, 50]]"
  by code_simp
lemma first_pass_block_2_1: "pixelate_block [0, 2, 4] [0, 1, 2] (gray_image [[0, 0, 50, 50], [0, 0, 50, 50]]) 2 1
             = gray_image [[0, 0, 50, 50], [0, 0, 0, 50]]"
  by code_simp
lemma first_pass_block_2_2: "pixelate_block [0, 2, 4] [0, 1, 2] (gray_image [[0, 0, 50, 50], [0, 0, 0, 50]]) 2 2
             = gray_image [[0, 0, 50, 50], [0, 0, 25, 25]]"
  by code_simp
lemma second_pass_block_1_1: "pixelate_block [0, 2, 4] [0, 1, 2] (gray_image [[0, 0, 50, 50], [0, 0, 25, 25]]) 1 1
             = gray_image [[0, 0, 0, 50], [0, 0, 0, 25]]"
  by code_simp
lemma second_pass_block_1_2: "pixelate_block [0, 2, 4] [0, 1, 2] (gray_image [[0, 0, 0, 50], [0, 0, 0, 25]]) 1 2
             = gray_image [[0, 0, 25, 25], [0, 0, 25, 25]]"
  by code_simp
lemma second_pass_block_2_1: "pixelate_block [0, 2, 4] [0, 1, 2] (gray_image [[0, 0, 25, 25], [0, 0, 25, 25]]) 2 1
             = gray_image [[0, 0, 25, 25], [0, 0, 0, 25]]"
  by code_simp
lemma second_pass_block_2_2: "pixelate_block [0, 2, 4] [0, 1, 2] (gray_image [[0, 0, 25, 25], [0, 0, 0, 25]]) 2 2
             = gray_image [[0, 0, 25, 25], [0, 0, 12, 12]]"
  by code_simp

lemma gray_image_2x4:
  "img_h (gray_image [[a, b, c, d], [e, f, g, h]]) = 2"
  "img_w (gray_image [[a, b, c, d], [e, f, g, h]]) = 4"
  by (simp_all add: gray_image_def)

lemma pass1: "anonymize_face_pixelate (gray_image [[0, 0, 0, 100], [0, 0, 0, 100]]) 2
                = gray_image [[0, 0, 50, 50], [0, 0, 25, 25]]"
  unfolding pixelate_2x4[OF gray_image_2x4] first_pass_block_1_1 first_pass_block_1_2 first_pass_block_2_1 first_pass_block_2_2 by (rule refl)

lemma pass2: "anonymize_face_pixelate (gray_image [[0, 0, 50, 50], [0, 0, 25, 25]]) 2
                = gray_image [[0, 0, 25, 25], [0, 0, 12, 12]]"
  unfolding pixelate_2x4[OF gray_image_2x4] second_pass_block_1_1 second_pass_block_1_2 second_pass_block_2_1 second_pass_block_2_2 by (rule refl)

lemma images_differ:
  "gray_image [[0, 0, 25, 25], [0, 0, 12, 12]] \<noteq> gray_image [[0, 0, 50, 50], [0, 0, 25, 25]]"
  by (simp add: gray_image_def gray_def)

text \<open>
  Claim C6 says that pixelating twice with the same number of blocks gives the result
  of pixelating once. \<^verbatim>\<open>cv2.rectangle\<close> fills both corners, so each block also paints
  the first row and column of the blocks after it, and the mean of a later block is
  taken over pixels already painted. On a region of 2 by 4 pixels with 2 blocks the
  second application changes the region again.
\<close>

theorem pixelate_twice_differs:
  "anonymize_face_pixelate (gray_image [[0, 0, 0, 100], [0, 0, 0, 100]]) 2
     = gray_image [[0, 0, 50, 50], [0, 0, 25, 25]]
   \<and> anonymize_face_pixelate (anonymize_face_pixelate (gray_image [[0, 0, 0, 100], [0, 0, 0, 100]]) 2) 2
     = gray_image [[0, 0, 25, 25], [0, 0, 12, 12]]
   \<and> gray_image [[0, 0, 25, 25], [0, 0, 12, 12]] \<noteq> gray_image [[0, 0, 50, 50], [0, 0, 25, 25]]"
  unfolding pass1 pass2 using images_differ by blast

lemma degenerate_step:
  "pixelate_block [0, 0, 0, 0, 0, 0, 0, 0, 0, 0, 1] [0, 0, 0, 0, 0, 0, 0, 0, 0, 0, 1]
     (gray_image [[7]]) 1 1 = gray_image [[0]]"
  by code_simp

lemma black_differs: "gray_image [[0]] \<noteq> gray_image [[7]]"
  by (simp add: gray_image_def gray_def)

text \<open>
  Claim C7 says that a cell whose boundaries repeat leaves the image unchanged. On a
  region of one pixel with the 10 blocks the handler asks for, the first cell has
  boundaries \<open>0, 0\<close> on both axes: the mean of its empty slice is 0 and the rectangle
  from \<open>(0, 0)\<close> to \<open>(0, 0)\<close> paints the pixel black.
\<close>

theorem degenerate_cell_paints_black:
  "linspace_int 1 10 = [0, 0, 0, 0, 0, 0, 0, 0, 0, 0, 1]
   \<and> pixelate_block (linspace_int 1 10) (linspace_int 1 10) (gray_image [[7]]) 1 1 = gray_image [[0]]
   \<and> gray_image [[0]] \<noteq> gray_image [[7]]"
  unfolding linspace_1_10 using degenerate_step black_differs by blast

subsection \<open>C8: pixels outside the face rectangle\<close>

lemma rectangle_filled_shape:
  "img_h (rectangle_filled im p1 p2 c) = img_h im \<and> img_w (rectangle_filled im p1 p2 c) = img_w im"
  by (simp add: rectangle_filled_def split_def Let_def)

lemma pixelate_block_shape:
  "img_h (pixelate_block xs ys im i j) = img_h im \<and> img_w (pixelate_block xs ys im i j) = img_w im"
  by (simp add: pixelate_block_def Let_def rectangle_filled_shape)

lemma foldl_shape:
  assumes "\<And>im x. img_h (f im x) = img_h im \<and> img_w (f im x) = img_w im"
  shows "img_h (foldl f im xs) = img_h im \<and> img_w (foldl f im xs) = img_w im"
  by (induction xs arbitrary: im) (simp_all add: assms)

lemma anonymize_face_pixelate_shape:
  "img_h (anonymize_face_pixelate im blocks) = img_h im
   \<and> img_w (anonymize_face_pixelate im blocks) = img_w im"
proof -
  have inner: "img_h (foldl (\<lambda>im j. pixelate_block xs ys im i j) im' js) = img_h im'
      \<and> img_w (foldl (\<lambda>im j. pixelate_block xs ys im i j) im' js) = img_w im'"
    for xs ys i im' js
    by (rule foldl_shape [where f = "\<lambda>im j. pixelate_block xs ys im i j"])
       (rule pixelate_block_shape)
  show ?thesis
    unfolding anonymize_face_pixelate_def Let_def
    by (rule foldl_shape
          [where f = "\<lambda>im i. foldl (\<lambda>im j. pixelate_block xs ys im i j) im js" for xs ys js])
       (rule inner)
qed

lemma get_region_shape:
  "img_h (get_region im y1 y2 x1 x2) = snd (py_slice (img_h im) y1 y2) - fst (py_slice (img_h im) y1 y2)
   \<and> img_w (get_region im y1 y2 x1 x2) = snd (py_slice (img_w im) x1 x2) - fst (py_slice (img_w im) x1 x2)"
  by (simp add: get_region_def split_def Let_def)

lemma set_region_frame:
  assumes wf: "wf_image im"
    and set: "set_region im y1 y2 x1 x2 face = Inr im'"
    and y: "y < img_h im" and x: "x < img_w im"
    and out: "\<not> (fst (py_slice (img_h im) y1 y2) \<le> y \<and> y < snd (py_slice (img_h im) y1 y2)
               \<and> fst (py_slice (img_w im) x1 x2) \<le> x \<and> x < snd (py_slice (img_w im) x1 x2))"
  shows "pixel_at im' y x = pixel_at im y x \<and> img_h im' = img_h im \<and> img_w im' = img_w im"
proof -
  from wf y have ly: "y < length (img_rows im)" by (simp add: wf_image_def)
  with wf x have lx: "x < length (img_rows im ! y)" by (simp add: wf_image_def list_all_length)
  from set ly lx out show ?thesis
    by (auto simp: set_region_def split_def Let_def pixel_at_def nth_enumerate_eq split: if_splits)
qed

text \<open>
  Claim C8. For every face rectangle \<^verbatim>\<open>[y1:y2, x1:x2]\<close> of a well-formed image and
  for both variants, when the face has been anonymized and written back, every pixel
  of the image outside the rectangle is what it was, and the image keeps its shape.
  The pixelation always gets that far; the blur does whenever the Gaussian filter
  returns an array of the shape of its input.
\<close>

theorem anonymize_rect_frame:
  "(wf_image im \<and> anonymize_rect env im y1 y2 x1 x2 = Inr im' \<and> y < img_h im \<and> x < img_w im
      \<and> \<not> (fst (py_slice (img_h im) y1 y2) \<le> y \<and> y < snd (py_slice (img_h im) y1 y2)
           \<and> fst (py_slice (img_w im) x1 x2) \<le> x \<and> x < snd (py_slice (img_w im) x1 x2))
    \<longrightarrow> pixel_at im' y x = pixel_at im y x \<and> img_h im' = img_h im \<and> img_w im' = img_w im)
   \<and> (BLUR_TYPE env = Some ''pixelate'' \<longrightarrow> (\<exists>im''. anonymize_rect env im y1 y2 x1 x2 = Inr im''))
   \<and> (BLUR_TYPE env = Some t \<and> t \<noteq> ''pixelate''
        \<and> GaussianBlur env (get_region im y1 y2 x1 x2) (kernel_size (get_region im y1 y2 x1 x2) 3)
            = Inr face'
        \<and> img_h face' = img_h (get_region im y1 y2 x1 x2)
        \<and> img_w face' = img_w (get_region im y1 y2 x1 x2)
      \<longrightarrow> (\<exists>im''. anonymize_rect env im y1 y2 x1 x2 = Inr im''))"
proof -
  have frame: "pixel_at im' y x = pixel_at im y x \<and> img_h im' = img_h im \<and> img_w im' = img_w im"
    if h: "wf_image im \<and> anonymize_rect env im y1 y2 x1 x2 = Inr im' \<and> y < img_h im \<and> x < img_w im
      \<and> \<not> (fst (py_slice (img_h im) y1 y2) \<le> y \<and> y < snd (py_slice (img_h im) y1 y2)
           \<and> fst (py_slice (img_w im) x1 x2) \<le> x \<and> x < snd (py_slice (img_w im) x1 x2))"
  proof -
    from h obtain face where "set_region im y1 y2 x1 x2 face = Inr im'"
      by (auto simp: anonymize_rect_def Let_def split: option.splits sum.splits)
    with h set_region_frame[of im y1 y2 x1 x2 face im' y x] show ?thesis
      by blast
  qed
  have pix: "\<exists>im''. anonymize_rect env im y1 y2 x1 x2 = Inr im''"
    if "BLUR_TYPE env = Some ''pixelate''"
    using that
    by (simp add: anonymize_rect_def Let_def set_region_def split_def
        anonymize_face_pixelate_shape get_region_shape)
  have blur: "\<exists>im''. anonymize_rect env im y1 y2 x1 x2 = Inr im''"
    if "BLUR_TYPE env = Some t \<and> t \<noteq> ''pixelate''
        \<and> GaussianBlur env (get_region im y1 y2 x1 x2) (kernel_size (get_region im y1 y2 x1 x2) 3)
            = Inr face'
        \<and> img_h face' = img_h (get_region im y1 y2 x1 x2)
        \<and> img_w face' = img_w (get_region im y1 y2 x1 x2)"
    using that
    by (simp add: anonymize_rect_def Let_def set_region_def split_def anonymize_face_simple_def
        get_region_shape)
  from frame pix blur show ?thesis
    by blast
qed

lemma wf_sample: "wf_image (gray_image [[10, 20, 30], [40, 50, 60], [70, 80, 90]])"
  by (simp add: wf_image_def gray_image_def)

lemma slice_sample: "py_slice 3 1 3 = (1, 3)"
  by (simp add: py_slice_def slice_bound_def)

theorem anonymize_rect_frame_witness:
  "BLUR_TYPE env_ok = Some ''pixelate''
   \<and> wf_image (gray_image [[10, 20, 30], [40, 50, 60], [70, 80, 90]])
   \<and> (\<exists>im'. anonymize_rect env_ok (gray_image [[10, 20, 30], [40, 50, 60], [70, 80, 90]]) 1 3 1 3
                = Inr im'
         \<and> pixel_at im' 2 0 = gray 70 \<and> img_h im' = 3 \<and> img_w im' = 3)
   \<and> BLUR_TYPE env_blur = Some ''blur''
   \<and> (\<exists>im'. anonymize_rect env_blur (gray_image [[10, 20, 30], [40, 50, 60], [70, 80, 90]]) 1 3 1 3
                = Inr im')"
proof -
  let ?im = "gray_image [[10, 20, 30], [40, 50, 60], [70, 80, 90]]"
  have p: "BLUR_TYPE env_ok = Some ''pixelate''"
    by (simp add: env_ok_def)
  with anonymize_rect_frame [of ?im env_ok 1 3 1 3]
  obtain im' where r: "anonymize_rect env_ok ?im 1 3 1 3 = Inr im'"
    by blast
  have d: "img_h ?im = 3" "img_w ?im = 3" "pixel_at ?im 2 0 = gray 70"
    by (simp_all add: gray_image_def pixel_at_def)
  from anonymize_rect_frame [of ?im env_ok 1 3 1 3 im' 2 0] r wf_sample
  have f: "pixel_at im' 2 0 = pixel_at ?im 2 0 \<and> img_h im' = img_h ?im \<and> img_w im' = img_w ?im"
    by (simp add: d slice_sample)
  have b: "BLUR_TYPE env_blur = Some ''blur''"
    "GaussianBlur env_blur (get_region ?im 1 3 1 3) (kernel_size (get_region ?im 1 3 1 3) 3)
       = Inr (get_region ?im 1 3 1 3)"
    by (simp_all add: env_blur_def env_ok_def)
  from anonymize_rect_frame [of ?im env_blur 1 3 1 3 _ _ _ "''blur''" "get_region ?im 1 3 1 3"] b
  have g: "\<exists>im'. anonymize_rect env_blur ?im 1 3 1 3 = Inr im'"
    by simp
  from p r wf_sample d f b g show ?thesis
    by simp
qed

subsection \<open>C10: the variables \<^verbatim>\<open>bucket\<close> and \<^verbatim>\<open>key\<close> in the \<^verbatim>\<open>KeyError\<close> handler\<close>

lemma fail_record_unbound:
  "bucket st = None \<or> key st = None \<Longrightarrow> fail_record st m = Inl NameError"
  by (auto simp: fail_record_def split: option.splits)

lemma process_record_no_bucket:
  "s3_bucket_name r = None \<Longrightarrow> process_record env st r = fail_record st msg_no_s3"
  by (simp add: process_record_def read_record_def)

lemma process_record_no_key:
  "s3_bucket_name r = Some b \<Longrightarrow> s3_object_key r = None \<Longrightarrow>
     process_record env st r = fail_record (st\<lparr>bucket := Some b\<rparr>) msg_no_s3"
  by (simp add: process_record_def read_record_def)

lemma process_parsed_vars:
  assumes "process_parsed env st b k sz lf = Inr st'"
  shows "bucket st' = bucket st \<and> key st' = key st"
proof (cases "sz > 15728640 \<or> split_last CHR ''.'' lf \<notin> set [''png'', ''jpeg'', ''jpg'']")
  case True
  with assms show ?thesis
    by (auto simp: process_parsed_def split: if_splits dest!: fail_record_Inr)
next
  case False
  show ?thesis
  proof (cases "download_file env b k")
    case (Inl e)
    with assms False show ?thesis
      by (auto simp: process_parsed_def split: if_splits dest!: fail_record_Inr)
  next
    case (Inr content)
    note dl = this
    show ?thesis
    proof (cases "imread env content")
      case None
      with assms False dl show ?thesis by (simp add: process_parsed_def)
    next
      case (Some im)
      note rd = this
      show ?thesis
      proof (cases "detect_faces env b k")
        case (Inl e)
        with assms False dl rd show ?thesis
          by (auto simp: process_parsed_def Let_def split: if_splits dest!: fail_record_Inr)
      next
        case (Inr faces)
        with assms False dl rd show ?thesis
          by (auto simp: process_parsed_def Let_def split: if_splits sum.splits option.splits
              dest!: fail_record_Inr)
      qed
    qed
  qed
qed

lemma process_record_parsed_vars:
  assumes "process_record env st p = Inr st'"
    and "s3_bucket_name p = Some b" "s3_object_key p = Some k" "s3_object_size p = Some sz"
  shows "bucket st' = Some b \<and> key st' = Some (unquote_plus env k)"
proof -
  from assms have "process_parsed env (st\<lparr>bucket := Some b, key := Some (unquote_plus env k)\<rparr>)
      b (unquote_plus env k) sz (''/tmp/'' @ split_last CHR ''/'' (unquote_plus env k)) = Inr st'"
    by (simp add: process_record_def read_record_def Let_def)
  from process_parsed_vars[OF this] show ?thesis by simp
qed

lemma process_records_no_bucket_vars:
  "process_records env st ms = Inr st' \<Longrightarrow> \<forall>m\<in>set ms. s3_bucket_name m = None \<Longrightarrow>
     bucket st' = bucket st \<and> key st' = key st"
proof (induction ms arbitrary: st)
  case Nil
  then show ?case by simp
next
  case (Cons m ms)
  from Cons.prems obtain st1 where s1: "process_record env st m = Inr st1"
    and s2: "process_records env st1 ms = Inr st'"
    by (auto split: sum.splits)
  from s1 Cons.prems(2) have "fail_record st msg_no_s3 = Inr st1"
    by (simp add: process_record_no_bucket)
  from fail_record_Inr[OF this] have "bucket st1 = bucket st \<and> key st1 = key st" by auto
  with Cons.IH[OF s2] Cons.prems(2) show ?case by simp
qed

lemma prefix_nth: "prefix xs ys \<Longrightarrow> i < length xs \<Longrightarrow> ys ! i = xs ! i \<and> i < length ys"
  by (auto simp: prefix_def nth_append)

text \<open>
  Claim C10, as amended. When the first record of a batch lacks its bucket name or
  its key, the handler raises \<^verbatim>\<open>NameError\<close>: the \<^verbatim>\<open>KeyError\<close> handler reads
  \<^verbatim>\<open>bucket\<close> and \<^verbatim>\<open>key\<close> while one of them is unbound. When a later record \<open>r'\<close>
  lacks its bucket name, \<open>p\<close> is the most recent record before it that was read in
  full, and the records \<open>ms\<close> between the two lack their bucket name as well, the
  entry that \<open>r'\<close> adds to the failure list (the one right after the entries of the
  records before it) carries the bucket and the unquoted key of \<open>p\<close>.
\<close>

theorem stale_bucket_and_key:
  "(s3_bucket_name r = None \<or> s3_object_key r = None \<longrightarrow>
      lambda_handler env files \<lparr>Records = Some (r # rs)\<rparr> = Inl NameError)
   \<and> (lambda_handler env files \<lparr>Records = Some ((pre @ p # ms) @ r' # post)\<rparr> = Inr (res, files')
        \<and> s3_bucket_name p = Some b \<and> s3_object_key p = Some k \<and> s3_object_size p = Some sz
        \<and> (\<forall>m\<in>set ms. s3_bucket_name m = None) \<and> s3_bucket_name r' = None \<longrightarrow>
      (\<exists>res0 files0.
         lambda_handler env files \<lparr>Records = Some (pre @ p # ms)\<rparr> = Inr (res0, files0) \<and>
         length (b_failed_records (response_body res0)) < length (b_failed_records (response_body res)) \<and>
         b_failed_records (response_body res) ! length (b_failed_records (response_body res0))
           = \<lparr>f_bucket = b, f_key = unquote_plus env k, f_error_message = msg_no_s3\<rparr>))"
proof (intro conjI impI)
  assume "s3_bucket_name r = None \<or> s3_object_key r = None"
  then have "process_record env (initial_state files) r = Inl NameError"
  proof
    assume "s3_bucket_name r = None"
    then show ?thesis
      by (simp add: process_record_no_bucket fail_record_unbound initial_state_def)
  next
    assume nk: "s3_object_key r = None"
    show ?thesis
    proof (cases "s3_bucket_name r")
      case None
      then show ?thesis
        by (simp add: process_record_no_bucket fail_record_unbound initial_state_def)
    next
      case (Some b)
      with nk show ?thesis
        by (simp add: process_record_no_key fail_record_unbound initial_state_def)
    qed
  qed
  then show "lambda_handler env files \<lparr>Records = Some (r # rs)\<rparr> = Inl NameError"
    by (simp add: lambda_handler_def)
next
  assume h: "lambda_handler env files \<lparr>Records = Some ((pre @ p # ms) @ r' # post)\<rparr> = Inr (res, files')
        \<and> s3_bucket_name p = Some b \<and> s3_object_key p = Some k \<and> s3_object_size p = Some sz
        \<and> (\<forall>m\<in>set ms. s3_bucket_name m = None) \<and> s3_bucket_name r' = None"
  then obtain stf where run: "process_records env (initial_state files) ((pre @ p # ms) @ r' # post) = Inr stf"
    and res: "b_failed_records (response_body res) = failed_records stf"
    by (auto simp: lambda_handler_def split: sum.splits)
  from run obtain st0 where r0: "process_records env (initial_state files) (pre @ p # ms) = Inr st0"
    and r1: "process_records env st0 (r' # post) = Inr stf"
    unfolding process_records_append[of env _ "pre @ p # ms"] by (auto split: sum.splits)
  from r0 obtain sta where "process_records env sta (p # ms) = Inr st0"
    unfolding process_records_append[of env _ pre] by (auto split: sum.splits)
  then obtain stb where pb: "process_record env sta p = Inr stb"
    and pm: "process_records env stb ms = Inr st0"
    by (auto split: sum.splits)
  from process_record_parsed_vars[OF pb] h
  have "bucket stb = Some b \<and> key stb = Some (unquote_plus env k)" by blast
  with process_records_no_bucket_vars[OF pm] h
  have vars: "bucket st0 = Some b" "key st0 = Some (unquote_plus env k)" by auto
  from r1 obtain st1 where p1: "process_record env st0 r' = Inr st1"
    and p2: "process_records env st1 post = Inr stf"
    by (auto split: sum.splits)
  from p1 h have "fail_record st0 msg_no_s3 = Inr st1" by (simp add: process_record_no_bucket)
  from fail_record_Inr[OF this] vars
  have f1: "failed_records st1 = failed_records st0
      @ [\<lparr>f_bucket = b, f_key = unquote_plus env k, f_error_message = msg_no_s3\<rparr>]"
    by auto
  from process_records_lists[OF p2] have "prefix (failed_records st1) (failed_records stf)" by simp
  from prefix_nth[OF this, of "length (failed_records st0)"] f1
  have "failed_records stf ! length (failed_records st0)
          = \<lparr>f_bucket = b, f_key = unquote_plus env k, f_error_message = msg_no_s3\<rparr>"
    and "length (failed_records st0) < length (failed_records stf)"
    by simp_all
  with r0 res
  show "\<exists>res0 files0.
         lambda_handler env files \<lparr>Records = Some (pre @ p # ms)\<rparr> = Inr (res0, files0) \<and>
         length (b_failed_records (response_body res0)) < length (b_failed_records (response_body res)) \<and>
         b_failed_records (response_body res) ! length (b_failed_records (response_body res0))
           = \<lparr>f_bucket = b, f_key = unquote_plus env k, f_error_message = msg_no_s3\<rparr>"
    by (simp add: lambda_handler_def)
qed

theorem stale_bucket_and_key_witness:
  "s3_bucket_name no_s3_record = None
   \<and> lambda_handler env_ok no_files \<lparr>Records = Some (no_s3_record # [])\<rparr> = Inl NameError
   \<and> lambda_handler env_ok no_files
         \<lparr>Records = Some (([] @ good_record ''in'' ''a.jpg'' # []) @ no_s3_record # [])\<rparr>
       = Inr (\<lparr>statusCode = 200,
              response_body = \<lparr>b_cv2_version = ''4.5.1'',
                b_failed_records = [\<lparr>f_bucket = ''in'', f_key = ''a.jpg'', f_error_message = msg_no_s3\<rparr>],
                b_successful_records = [\<lparr>s_bucket = ''in'', s_key = ''a.jpg''\<rparr>]\<rparr>\<rparr>,
            no_files)
   \<and> (\<exists>res0 files0.
         lambda_handler env_ok no_files \<lparr>Records = Some ([] @ good_record ''in'' ''a.jpg'' # [])\<rparr>
           = Inr (res0, files0) \<and>
         length (b_failed_records (response_body res0)) < 1 \<and>
         [\<lparr>f_bucket = ''in'', f_key = ''a.jpg'', f_error_message = msg_no_s3\<rparr>]
            ! length (b_failed_records (response_body res0))
           = \<lparr>f_bucket = ''in'', f_key = unquote_plus env_ok ''a.jpg'', f_error_message = msg_no_s3\<rparr>)"
proof -
  let ?res = "\<lparr>statusCode = 200,
              response_body = \<lparr>b_cv2_version = ''4.5.1'',
                b_failed_records = [\<lparr>f_bucket = ''in'', f_key = ''a.jpg'', f_error_message = msg_no_s3\<rparr>],
                b_successful_records = [\<lparr>s_bucket = ''in'', s_key = ''a.jpg''\<rparr>]\<rparr>\<rparr>"
  have n: "s3_bucket_name no_s3_record = None"
    by (simp add: no_s3_record_def)
  have g: "s3_bucket_name (good_record ''in'' ''a.jpg'') = Some ''in''"
      "s3_object_key (good_record ''in'' ''a.jpg'') = Some ''a.jpg''"
      "s3_object_size (good_record ''in'' ''a.jpg'') = Some 1000"
    by (simp_all add: good_record_def)
  have run: "lambda_handler env_ok no_files
         \<lparr>Records = Some (([] @ good_record ''in'' ''a.jpg'' # []) @ no_s3_record # [])\<rparr>
       = Inr (?res, no_files)"
    using run_good_then_no_s3 by simp
  note inst = stale_bucket_and_key [where r = no_s3_record and env = env_ok and files = no_files
      and rs = "[]" and pre = "[]" and p = "good_record ''in'' ''a.jpg''" and ms = "[]"
      and r' = no_s3_record and post = "[]" and b = "''in''" and k = "''a.jpg''" and sz = 1000
      and files' = no_files and res = "?res"]
  from inst n have a: "lambda_handler env_ok no_files \<lparr>Records = Some (no_s3_record # [])\<rparr> = Inl NameError"
    by blast
  from inst run g n have b: "\<exists>res0 files0.
         lambda_handler env_ok no_files \<lparr>Records = Some ([] @ good_record ''in'' ''a.jpg'' # [])\<rparr>
           = Inr (res0, files0) \<and>
         length (b_failed_records (response_body res0)) < length (b_failed_records (response_body ?res)) \<and>
         b_failed_records (response_body ?res) ! length (b_failed_records (response_body res0))
           = \<lparr>f_bucket = ''in'', f_key = unquote_plus env_ok ''a.jpg'', f_error_message = msg_no_s3\<rparr>"
    by simp
  from n a run b show ?thesis
    by simp
qed

text \<open>
  The claim as stated (the entry of a malformed record carries the bucket and key of
  the last record that parsed, never its own) fails when a malformed record does have
  a bucket name: the assignment of line 108 has happened when line 109 raises. In the
  batch below the second record has a bucket name and nothing else, the third has no
  S3 entries: both entries carry the bucket of the second record.
\<close>

lemma step_bucket_only:
  "process_record env_ok
     \<lparr>bucket = Some ''in'', key = Some ''a.jpg'', failed_records = [],
      successful_records = [\<lparr>s_bucket = ''in'', s_key = ''a.jpg''\<rparr>], tmp = no_files\<rparr>
     (bucket_only_record ''other'')
   = Inr \<lparr>bucket = Some ''other'', key = Some ''a.jpg'',
          failed_records = [\<lparr>f_bucket = ''other'', f_key = ''a.jpg'', f_error_message = msg_no_s3\<rparr>],
          successful_records = [\<lparr>s_bucket = ''in'', s_key = ''a.jpg''\<rparr>], tmp = no_files\<rparr>"
  by (simp add: process_record_def read_record_def fail_record_def add_failed_def
      bucket_only_record_def)

lemma step_no_s3_third:
  "process_record env_ok
     \<lparr>bucket = Some ''other'', key = Some ''a.jpg'',
      failed_records = [\<lparr>f_bucket = ''other'', f_key = ''a.jpg'', f_error_message = msg_no_s3\<rparr>],
      successful_records = [\<lparr>s_bucket = ''in'', s_key = ''a.jpg''\<rparr>], tmp = no_files\<rparr>
     no_s3_record
   = Inr \<lparr>bucket = Some ''other'', key = Some ''a.jpg'',
          failed_records = [\<lparr>f_bucket = ''other'', f_key = ''a.jpg'', f_error_message = msg_no_s3\<rparr>,
                            \<lparr>f_bucket = ''other'', f_key = ''a.jpg'', f_error_message = msg_no_s3\<rparr>],
          successful_records = [\<lparr>s_bucket = ''in'', s_key = ''a.jpg''\<rparr>], tmp = no_files\<rparr>"
  by (simp add: process_record_def read_record_def fail_record_def add_failed_def no_s3_record_def)

theorem malformed_record_with_bucket:
  "lambda_handler env_ok no_files
     \<lparr>Records = Some [good_record ''in'' ''a.jpg'', bucket_only_record ''other'', no_s3_record]\<rparr>
   = Inr (\<lparr>statusCode = 200,
            response_body = \<lparr>b_cv2_version = ''4.5.1'',
              b_failed_records =
                [\<lparr>f_bucket = ''other'', f_key = ''a.jpg'', f_error_message = msg_no_s3\<rparr>,
                 \<lparr>f_bucket = ''other'', f_key = ''a.jpg'', f_error_message = msg_no_s3\<rparr>],
              b_successful_records = [\<lparr>s_bucket = ''in'', s_key = ''a.jpg''\<rparr>]\<rparr>\<rparr>,
          no_files)"
  by (simp add: lambda_handler_def step_good_first step_bucket_only step_no_s3_third)
     (simp add: env_ok_def)

end
